theory Spec2Isabelle
  imports Complex_Main
begin

section \<open>Python strings\<close>

text \<open>
  A Python \<open>str\<close> is modelled as a \<open>string\<close>, each \<open>char\<close> standing for the code
  point of the same number, so the model covers the candidates, contexts and list entries
  whose code points are below 256. On these, \<open>str.lower\<close> works character by
  character, \<open>\d\<close> matches the ten ASCII digits only and \<open>len\<close> is the length of the
  list.
\<close>

definition in_range :: "char \<Rightarrow> char \<Rightarrow> char \<Rightarrow> bool" where
  \<comment> \<open>the regular-expression range \<open>lo-hi\<close>: a comparison of code points\<close>
  "in_range lo hi c = ((of_char lo :: nat) \<le> of_char c \<and> (of_char c :: nat) \<le> of_char hi)"

definition lower_char :: "char \<Rightarrow> char" where
  \<comment> \<open>the letters \<open>A-Z\<close> and U+00C0 to U+00DE (but the multiplication sign U+00D7) have
      their lowercase form 32 code points further; every other code point below 256 is
      its own lowercase form\<close>
  "lower_char c =
     (if in_range CHR ''A'' CHR ''Z'' c \<or> (in_range CHR 0xC0 CHR 0xDE c \<and> c \<noteq> CHR 0xD7)
      then char_of (of_char c + (32::nat)) else c)"

definition lower :: "string \<Rightarrow> string" where
  \<comment> \<open>\<open>s.lower()\<close>\<close>
  "lower s = map lower_char s"

definition is_space :: "char \<Rightarrow> bool" where
  \<comment> \<open>the code points below 256 that \<open>str.strip\<close> removes\<close>
  "is_space c =
     (in_range CHR 0x09 CHR 0x0D c \<or> in_range CHR 0x1C CHR 0x20 c \<or> c = CHR 0x85 \<or> c = CHR 0xA0)"

definition strip :: "string \<Rightarrow> string" where
  \<comment> \<open>\<open>s.strip()\<close>\<close>
  "strip s = rev (dropWhile is_space (rev (dropWhile is_space s)))"

fun starts_with :: "string \<Rightarrow> string \<Rightarrow> bool" where
  \<comment> \<open>\<open>starts_with sub s\<close>: \<open>sub\<close> is an initial segment of \<open>s\<close>\<close>
  "starts_with [] s = True"
| "starts_with (a # as) [] = False"
| "starts_with (a # as) (c # cs) = (a = c \<and> starts_with as cs)"

fun str_in :: "string \<Rightarrow> string \<Rightarrow> bool" where
  \<comment> \<open>\<open>sub in s\<close> on strings: \<open>sub\<close> occurs in \<open>s\<close> at some position\<close>
  "str_in sub [] = (sub = [])"
| "str_in sub (c # cs) = (starts_with sub (c # cs) \<or> str_in sub cs)"

fun split :: "char \<Rightarrow> string \<Rightarrow> string list" where
  \<comment> \<open>\<open>s.split(sep)\<close> for a separator of one character\<close>
  "split sep [] = [[]]"
| "split sep (c # cs) =
     (if c = sep then [] # split sep cs
      else (case split sep cs of f # fs \<Rightarrow> (c # f) # fs | [] \<Rightarrow> [[c]]))"

definition slice :: "string \<Rightarrow> nat \<Rightarrow> nat \<Rightarrow> string" where
  \<comment> \<open>\<open>s[i:j]\<close> for indices that are not negative\<close>
  "slice s i j = take (j - i) (drop i s)"

subsection \<open>The regular expressions of the checker\<close>

definition search_class :: "(char \<Rightarrow> bool) \<Rightarrow> string \<Rightarrow> bool" where
  \<comment> \<open>\<open>bool(re.search(r, s))\<close> for a pattern \<open>r\<close> that is one character class\<close>
  "search_class cls s = list_ex cls s"

definition upper_class :: "char \<Rightarrow> bool" where
  \<comment> \<open>\<open>[A-Z]\<close>\<close>
  "upper_class c = in_range CHR ''A'' CHR ''Z'' c"

definition lower_class :: "char \<Rightarrow> bool" where
  \<comment> \<open>\<open>[a-z]\<close>\<close>
  "lower_class c = in_range CHR ''a'' CHR ''z'' c"

definition digit_class :: "char \<Rightarrow> bool" where
  \<comment> \<open>\<open>\d\<close>: below code point 256 the decimal digits are \<open>0\<close> to \<open>9\<close>\<close>
  "digit_class c = in_range CHR ''0'' CHR ''9'' c"

definition special_chars :: string where
  \<comment> \<open>the members of \<open>[!@#$%^&*(),.?\":{}|<>]\<close>; U+0022 is the double quote\<close>
  "special_chars = ''!@#$%^&*(),.?'' @ [CHR 0x22] @ '':{}|<>''"

definition special_class :: "char \<Rightarrow> bool" where
  "special_class c = (c \<in> set special_chars)"

definition non_alnum_class :: "char \<Rightarrow> bool" where
  \<comment> \<open>\<open>[^a-zA-Z0-9]\<close>\<close>
  "non_alnum_class c =
     (\<not> (in_range CHR ''a'' CHR ''z'' c \<or> in_range CHR ''A'' CHR ''Z'' c
         \<or> in_range CHR ''0'' CHR ''9'' c))"

fun search_triple :: "string \<Rightarrow> bool" where
  \<comment> \<open>whether \<open>re.search(r"(.)\1\1", s)\<close> finds a match; the dot matches every character
      but the line feed U+000A\<close>
  "search_triple (a # b # c # cs) =
     ((a \<noteq> CHR 0x0A \<and> b = a \<and> c = a) \<or> search_triple (b # c # cs))"
| "search_triple cs = False"

section \<open>The files the checker reads\<close>

text \<open>
  The file system is a map from a path to the lines the file iterator yields. Opening a
  path that is not there raises \<open>FileNotFoundError\<close>, the one exception the source
  handles. The methods of the class are given first for such a file system; the errors
  that the source does not handle are written out after them, in the definitions named
  with \<open>_io\<close>.
\<close>

datatype error = FileNotFoundError

type_synonym files = "string \<rightharpoonup> string list"

definition open_lines :: "files \<Rightarrow> string \<Rightarrow> error + string list" where
  "open_lines fs path = (case fs path of None \<Rightarrow> Inl FileNotFoundError | Some ls \<Rightarrow> Inr ls)"

section \<open>The class \<open>Password_Complexity_Checker\<close>\<close>

record checker =
  password :: string
  username :: string
  email :: string
  old_password :: string
  common_passwords :: "string list"
  criteria :: "(string \<times> bool) list"

definition default_common_passwords :: "string list" where
  "default_common_passwords =
     [''password'', ''123456'', ''qwerty'', ''letmein'', ''welcome'',
      ''admin'', ''12345678'', ''123456789'', ''123123'', ''111111'']"

definition load_common_passwords :: "files \<Rightarrow> string list" where
  "load_common_passwords fs =
     (case open_lines fs ''common_passwords.txt'' of
        Inr ls \<Rightarrow> map (\<lambda>line. lower (strip line)) ls
      | Inl FileNotFoundError \<Rightarrow> default_common_passwords)"

definition sequences :: "string list" where
  "sequences =
     [''abcdefghijklmnopqrstuvwxyz'',
      ''zyxwvutsrqponmlkjihgfedcba'',
      ''01234567890'',
      ''9876543210'',
      ''qwertyuiop'',
      ''poiuytrewq'',
      ''asdfghjkl'',
      ''lkjhgfdsa'',
      ''zxcvbnm'',
      ''mnbvcxz'']"

definition has_sequential_chars :: "checker \<Rightarrow> bool" where
  "has_sequential_chars self =
     (let password_lower = lower (password self)
      in list_ex (\<lambda>seq. str_in seq password_lower) sequences)"

definition has_repeated_chars :: "checker \<Rightarrow> bool" where
  \<comment> \<open>the source returns the match object or \<open>None\<close>; its one caller takes \<open>not\<close> of it,
      so the model keeps whether there is a match\<close>
  "has_repeated_chars self = search_triple (password self)"

definition contains_personal_info :: "checker \<Rightarrow> bool" where
  "contains_personal_info self =
     (if username self = [] \<and> email self = [] then False
      else
        (let personal_info = [];
             personal_info =
               (if username self \<noteq> [] then personal_info @ [lower (username self)]
                else personal_info);
             personal_info =
               (if email self \<noteq> []
                then personal_info @ [lower (hd (split CHR ''@'' (email self)))]
                else personal_info)
         in list_ex (\<lambda>info. str_in info (lower (password self))) personal_info))"

definition is_similar_to_old :: "checker \<Rightarrow> bool" where
  "is_similar_to_old self =
     (if old_password self = [] then False
      else lower (password self) = lower (old_password self)
         \<or> str_in (lower (old_password self)) (lower (password self)))"

definition contains_dictionary_word :: "files \<Rightarrow> checker \<Rightarrow> bool" where
  \<comment> \<open>the source collects the words in a set; \<open>any\<close> over it asks for one member that
      fits, whatever the order and the repetitions\<close>
  "contains_dictionary_word fs self =
     (case open_lines fs ''/usr/share/dict/words'' of
        Inl FileNotFoundError \<Rightarrow> False
      | Inr ls \<Rightarrow>
          (let dictionary = map (\<lambda>word. lower (strip word)) ls
           in list_ex (\<lambda>word. str_in word (lower (password self)))
                (filter (\<lambda>word. length word > 3) dictionary)))"

definition keyboard_rows :: "string list" where
  "keyboard_rows = [''qwertyuiop'', ''asdfghjkl'', ''zxcvbnm'', ''1234567890'']"

fun row_loop :: "string \<Rightarrow> string \<Rightarrow> nat list \<Rightarrow> bool" where
  \<comment> \<open>the inner loop over the indices \<open>i\<close>; \<open>True\<close> is the early return\<close>
  "row_loop password_lower row [] = False"
| "row_loop password_lower row (i # is) =
     (if str_in (slice row i (i + 4)) password_lower
         \<or> str_in (rev (slice row i (i + 4))) password_lower
      then True
      else row_loop password_lower row is)"

fun rows_loop :: "string \<Rightarrow> string list \<Rightarrow> bool" where
  \<comment> \<open>the outer loop over the rows; \<open>range(len(row) - 3)\<close> is empty when the row has
      fewer than four characters\<close>
  "rows_loop password_lower [] = False"
| "rows_loop password_lower (row # rows) =
     (if row_loop password_lower row [0 ..< length row - 3] then True
      else rows_loop password_lower rows)"

definition has_keyboard_pattern :: "checker \<Rightarrow> bool" where
  "has_keyboard_pattern self =
     (let password_lower = lower (password self)
      in rows_loop password_lower keyboard_rows)"

definition initialize_criteria :: "files \<Rightarrow> checker \<Rightarrow> (string \<times> bool) list" where
  \<comment> \<open>the dictionary literal, in the order of its keys\<close>
  "initialize_criteria fs self =
     [(''length'', int (length (password self)) \<ge> 12),
      (''uppercase'', search_class upper_class (password self)),
      (''lowercase'', search_class lower_class (password self)),
      (''number'', search_class digit_class (password self)),
      (''special_char'', search_class special_class (password self)),
      (''not_common'', lower (password self) \<notin> set (common_passwords self)),
      (''no_sequential'', \<not> has_sequential_chars self),
      (''no_repeated'', \<not> has_repeated_chars self),
      (''no_personal_info'', \<not> contains_personal_info self),
      (''not_similar_old'', \<not> is_similar_to_old self),
      (''no_dict_words'', \<not> contains_dictionary_word fs self),
      (''no_keyboard_patterns'', \<not> has_keyboard_pattern self)]"

definition Password_Complexity_Checker ::
  "files \<Rightarrow> string \<Rightarrow> string \<Rightarrow> string \<Rightarrow> string \<Rightarrow> checker" where
  \<comment> \<open>\<open>__init__\<close>: the four arguments, then the two computed attributes\<close>
  "Password_Complexity_Checker fs pw un em old =
     (let self = \<lparr>password = pw, username = un, email = em, old_password = old,
                   common_passwords = [], criteria = []\<rparr>;
          self = self\<lparr>common_passwords := load_common_passwords fs\<rparr>;
          self = self\<lparr>criteria := initialize_criteria fs self\<rparr>
      in self)"

definition pool_size :: "checker \<Rightarrow> int" where
  \<comment> \<open>the local variable \<open>pool_size\<close> of \<open>calculate_entropy\<close> after its four tests\<close>
  "pool_size self =
     (let pool_size = 0;
          pool_size = (if search_class lower_class (password self) then pool_size + 26
                       else pool_size);
          pool_size = (if search_class upper_class (password self) then pool_size + 26
                       else pool_size);
          pool_size = (if search_class digit_class (password self) then pool_size + 10
                       else pool_size);
          pool_size = (if search_class non_alnum_class (password self) then pool_size + 32
                       else pool_size)
      in pool_size)"

definition calculate_entropy :: "checker \<Rightarrow> real" where
  \<comment> \<open>\<open>math.log2\<close> is the logarithm to base 2 on the reals: the rounding of the floating
      point result is not modelled\<close>
  "calculate_entropy self =
     (if pool_size self \<noteq> 0
      then log 2 (real_of_int (pool_size self ^ length (password self)))
      else 0)"

definition get_strength_label :: "int \<Rightarrow> real \<Rightarrow> string" where
  "get_strength_label score entropy =
     (if score \<ge> 10 \<and> entropy \<ge> 75 then ''excellent''
      else if score \<ge> 8 \<and> entropy \<ge> 60 then ''very_strong''
      else if score \<ge> 6 \<and> entropy \<ge> 45 then ''strong''
      else if score \<ge> 4 \<and> entropy \<ge> 30 then ''moderate''
      else if score \<ge> 2 then ''weak''
      else ''very_weak'')"

record analysis =
  score :: int
  total_possible :: int
  strength :: string
  entropy :: real
  is_strong :: bool
  failed_checks :: "string list"

definition bool_int :: "bool \<Rightarrow> int" where
  \<comment> \<open>a Python \<open>bool\<close> is the integer 1 or 0 in a sum\<close>
  "bool_int b = (if b then 1 else 0)"

definition analyze :: "checker \<Rightarrow> analysis" where
  "analyze self =
     (let score = sum_list (map (\<lambda>(k, v). bool_int v) (criteria self));
          total_criteria = int (length (criteria self));
          entropy = calculate_entropy self;
          strength = get_strength_label score entropy
      in \<lparr>score = score,
          total_possible = total_criteria,
          strength = strength,
          entropy = entropy,
          is_strong = (real_of_int score \<ge> real_of_int total_criteria * 0.75),
          failed_checks = map fst (filter (\<lambda>(k, v). \<not> v) (criteria self))\<rparr>)"

section \<open>Errors of the files that the source does not handle\<close>

text \<open>
  Opening or reading a file can fail in other ways than by a missing file. The source
  handles \<open>FileNotFoundError\<close> alone, so every other error leaves the method and then
  \<open>__init__\<close>. The definitions of this section are the methods that read a file, and the
  constructor that calls them, with these errors written out; a disk gives for each path
  what opening the file and reading its lines results in.
\<close>

datatype io_error = NoSuchFile | PermissionError | IsADirectoryError | UnicodeDecodeError

type_synonym disk = "string \<Rightarrow> io_error + string list"

definition open_io :: "disk \<Rightarrow> string \<Rightarrow> io_error + string list" where
  \<comment> \<open>\<open>NoSuchFile\<close> stands for \<open>FileNotFoundError\<close>\<close>
  "open_io d path = d path"

definition load_common_passwords_io :: "disk \<Rightarrow> io_error + string list" where
  "load_common_passwords_io d =
     (case open_io d ''common_passwords.txt'' of
        Inr ls \<Rightarrow> Inr (map (\<lambda>line. lower (strip line)) ls)
      | Inl NoSuchFile \<Rightarrow> Inr default_common_passwords
      | Inl e \<Rightarrow> Inl e)"

definition contains_dictionary_word_io :: "disk \<Rightarrow> checker \<Rightarrow> io_error + bool" where
  "contains_dictionary_word_io d self =
     (case open_io d ''/usr/share/dict/words'' of
        Inl NoSuchFile \<Rightarrow> Inr False
      | Inl e \<Rightarrow> Inl e
      | Inr ls \<Rightarrow>
          (let dictionary = map (\<lambda>word. lower (strip word)) ls
           in Inr (list_ex (\<lambda>word. str_in word (lower (password self)))
                (filter (\<lambda>word. length word > 3) dictionary))))"

definition initialize_criteria_io :: "disk \<Rightarrow> checker \<Rightarrow> io_error + (string \<times> bool) list" where
  \<comment> \<open>of the twelve values only the one of \<open>no_dict_words\<close> can raise an error, and
      the ten before it have no effect\<close>
  "initialize_criteria_io d self =
     (case contains_dictionary_word_io d self of
        Inl e \<Rightarrow> Inl e
      | Inr found \<Rightarrow>
          Inr [(''length'', int (length (password self)) \<ge> 12),
               (''uppercase'', search_class upper_class (password self)),
               (''lowercase'', search_class lower_class (password self)),
               (''number'', search_class digit_class (password self)),
               (''special_char'', search_class special_class (password self)),
               (''not_common'', lower (password self) \<notin> set (common_passwords self)),
               (''no_sequential'', \<not> has_sequential_chars self),
               (''no_repeated'', \<not> has_repeated_chars self),
               (''no_personal_info'', \<not> contains_personal_info self),
               (''not_similar_old'', \<not> is_similar_to_old self),
               (''no_dict_words'', \<not> found),
               (''no_keyboard_patterns'', \<not> has_keyboard_pattern self)])"

definition Password_Complexity_Checker_io ::
  "disk \<Rightarrow> string \<Rightarrow> string \<Rightarrow> string \<Rightarrow> string \<Rightarrow> io_error + checker" where
  "Password_Complexity_Checker_io d pw un em old =
     (let self = \<lparr>password = pw, username = un, email = em, old_password = old,
                   common_passwords = [], criteria = []\<rparr>
      in case load_common_passwords_io d of
           Inl e \<Rightarrow> Inl e
         | Inr common \<Rightarrow>
             (let self = self\<lparr>common_passwords := common\<rparr>
              in case initialize_criteria_io d self of
                   Inl e \<Rightarrow> Inl e
                 | Inr c \<Rightarrow> Inr (self\<lparr>criteria := c\<rparr>)))"

definition files_of :: "disk \<Rightarrow> files" where
  \<comment> \<open>the files of a disk that can be read\<close>
  "files_of d = (\<lambda>path. case d path of Inr ls \<Rightarrow> Some ls | Inl e \<Rightarrow> None)"

section \<open>The alphabet size in the words of the specification\<close>







section \<open>Reading the result of \<open>analyze\<close>\<close>

lemma score_analyze:
  "score (analyze self) = sum_list (map (\<lambda>(k, v). bool_int v) (criteria self))"
  by (simp add: analyze_def Let_def)

lemma total_possible_analyze: "total_possible (analyze self) = int (length (criteria self))"
  by (simp add: analyze_def Let_def)

lemma entropy_analyze: "entropy (analyze self) = calculate_entropy self"
  by (simp add: analyze_def Let_def)

lemma strength_analyze:
  "strength (analyze self) = get_strength_label (score (analyze self)) (calculate_entropy self)"
  by (simp add: analyze_def Let_def)

lemma is_strong_analyze:
  "is_strong (analyze self) =
     (real_of_int (score (analyze self)) \<ge> real_of_int (total_possible (analyze self)) * 0.75)"
  by (simp add: analyze_def Let_def)

lemma failed_checks_analyze:
  "failed_checks (analyze self) = map fst (filter (\<lambda>(k, v). \<not> v) (criteria self))"
  by (simp add: analyze_def Let_def)

lemma passed_plus_failed:
  "sum_list (map (\<lambda>(k, v). bool_int v) kvs) + int (length (filter (\<lambda>(k, v). \<not> v) kvs))
     = int (length kvs)"
  by (induction kvs) (auto simp: bool_int_def)

lemma passed_nonneg: "0 \<le> sum_list (map (\<lambda>(k, v). bool_int v) kvs)"
  by (induction kvs) (auto simp: bool_int_def)

lemma length_initialize_criteria: "length (initialize_criteria fs self) = 12"
  by (simp add: initialize_criteria_def)

lemma criteria_init:
  "criteria (Password_Complexity_Checker fs pw un em old) =
     initialize_criteria fs
       \<lparr>password = pw, username = un, email = em, old_password = old,
        common_passwords = load_common_passwords fs, criteria = []\<rparr>"
  by (simp add: Password_Complexity_Checker_def Let_def)

lemma password_init: "password (Password_Complexity_Checker fs pw un em old) = pw"
  by (simp add: Password_Complexity_Checker_def Let_def)

lemma length_criteria_init:
  "length (criteria (Password_Complexity_Checker fs pw un em old)) = 12"
  by (simp add: criteria_init length_initialize_criteria)

lemma is_strong_of_twelve:
  assumes "length (criteria self) = 12"
  shows "is_strong (analyze self) \<longleftrightarrow> 9 \<le> score (analyze self)"
proof -
  have "total_possible (analyze self) = 12"
    using assms by (simp add: total_possible_analyze)
  then have "is_strong (analyze self) \<longleftrightarrow> (9::real) \<le> real_of_int (score (analyze self))"
    by (simp add: is_strong_analyze)
  then show ?thesis by linarith
qed

subsection \<open>Two candidates evaluated\<close>

lemma criteria_Qwerty1234:
  "criteria (Password_Complexity_Checker Map.empty ''Qwerty1234'' ''alice'' [] []) =
     [(''length'', False), (''uppercase'', True), (''lowercase'', True), (''number'', True),
      (''special_char'', False), (''not_common'', True), (''no_sequential'', True),
      (''no_repeated'', True), (''no_personal_info'', True), (''not_similar_old'', True),
      (''no_dict_words'', True), (''no_keyboard_patterns'', False)]"
  by code_simp

lemma criteria_aaaa:
  "criteria (Password_Complexity_Checker Map.empty ''aaaa'' [] [] []) =
     [(''length'', False), (''uppercase'', False), (''lowercase'', True), (''number'', False),
      (''special_char'', False), (''not_common'', True), (''no_sequential'', True),
      (''no_repeated'', False), (''no_personal_info'', True), (''not_similar_old'', True),
      (''no_dict_words'', True), (''no_keyboard_patterns'', True)]"
  by code_simp

section \<open>The verdict and the counts of the report\<close>

text \<open>
  Claim C1. For every candidate, every context and every content of the two files, the
  field \<open>is_strong\<close> of the result of \<open>analyze\<close> is true exactly when the score is at least
  9 (of 12). The entropy plays no part: a checker with the same criteria and any other
  password, hence any other entropy, has the same verdict.
\<close>

theorem is_strong_iff_score:
  "(is_strong (analyze (Password_Complexity_Checker fs pw un em old))
      \<longleftrightarrow> 9 \<le> score (analyze (Password_Complexity_Checker fs pw un em old)))
   \<and> (\<forall>self'. criteria self' = criteria (Password_Complexity_Checker fs pw un em old)
         \<longrightarrow> is_strong (analyze self')
             = is_strong (analyze (Password_Complexity_Checker fs pw un em old)))"
proof -
  let ?c = "Password_Complexity_Checker fs pw un em old"
  have a: "is_strong (analyze ?c) \<longleftrightarrow> 9 \<le> score (analyze ?c)"
    by (rule is_strong_of_twelve) (rule length_criteria_init)
  have b: "is_strong (analyze self') = is_strong (analyze ?c)"
    if "criteria self' = criteria ?c" for self'
  proof -
    have "length (criteria self') = 12" using that by (simp add: length_criteria_init)
    then have "is_strong (analyze self') \<longleftrightarrow> 9 \<le> score (analyze self')"
      by (rule is_strong_of_twelve)
    moreover have "score (analyze self') = score (analyze ?c)"
      using that by (simp add: score_analyze)
    ultimately show ?thesis using a by simp
  qed
  from a b show ?thesis by blast
qed

theorem is_strong_iff_score_witness:
  "score (analyze (Password_Complexity_Checker Map.empty ''Qwerty1234'' ''alice'' [] [])) = 9
   \<and> is_strong (analyze (Password_Complexity_Checker Map.empty ''Qwerty1234'' ''alice'' [] []))
   \<and> is_strong (analyze
        ((Password_Complexity_Checker Map.empty ''Qwerty1234'' ''alice'' [] [])
           \<lparr>password := ''zz''\<rparr>))"
proof -
  let ?c = "Password_Complexity_Checker Map.empty ''Qwerty1234'' ''alice'' [] []"
  have s: "score (analyze ?c) = 9"
    by (simp add: score_analyze criteria_Qwerty1234 bool_int_def)
  have c: "criteria (?c\<lparr>password := ''zz''\<rparr>) = criteria ?c"
    by simp
  from is_strong_iff_score [of Map.empty "''Qwerty1234''" "''alice''" "[]" "[]"] s c
  show ?thesis by simp
qed

text \<open>
  Claim C2. For every candidate, every context and every content of the two files, the
  result of \<open>analyze\<close> has a score from 0 to 12, a \<open>total_possible\<close> of 12, and a list
  \<open>failed_checks\<close> of 12 minus the score entries.
\<close>

theorem analyze_score_bounds:
  "0 \<le> score (analyze (Password_Complexity_Checker fs pw un em old))
   \<and> score (analyze (Password_Complexity_Checker fs pw un em old)) \<le> 12
   \<and> total_possible (analyze (Password_Complexity_Checker fs pw un em old)) = 12
   \<and> int (length (failed_checks (analyze (Password_Complexity_Checker fs pw un em old))))
       = 12 - score (analyze (Password_Complexity_Checker fs pw un em old))"
proof -
  let ?c = "Password_Complexity_Checker fs pw un em old"
  have len: "length (criteria ?c) = 12" by (rule length_criteria_init)
  have sum: "score (analyze ?c) + int (length (failed_checks (analyze ?c))) = 12"
    using passed_plus_failed [of "criteria ?c"] len
    by (simp add: score_analyze failed_checks_analyze)
  have "0 \<le> score (analyze ?c)"
    by (simp add: score_analyze passed_nonneg)
  moreover have "total_possible (analyze ?c) = 12"
    using len by (simp add: total_possible_analyze)
  ultimately show ?thesis using sum by linarith
qed

theorem analyze_score_bounds_witness:
  "failed_checks (analyze (Password_Complexity_Checker Map.empty ''aaaa'' [] [] []))
     = [''length'', ''uppercase'', ''number'', ''special_char'', ''no_repeated'']
   \<and> score (analyze (Password_Complexity_Checker Map.empty ''aaaa'' [] [] [])) = 7
   \<and> total_possible (analyze (Password_Complexity_Checker Map.empty ''aaaa'' [] [] [])) = 12"
proof -
  let ?c = "Password_Complexity_Checker Map.empty ''aaaa'' [] [] []"
  have f: "failed_checks (analyze ?c)
             = [''length'', ''uppercase'', ''number'', ''special_char'', ''no_repeated'']"
    by (simp add: failed_checks_analyze criteria_aaaa)
  from analyze_score_bounds [of Map.empty "''aaaa''" "[]" "[]" "[]"] f
  show ?thesis by simp
qed

section \<open>Substrings\<close>

lemma starts_with_iff: "starts_with sub s \<longleftrightarrow> (\<exists>suf. s = sub @ suf)"
  by (induction sub s rule: starts_with.induct) auto

lemma str_in_iff: "str_in sub s \<longleftrightarrow> (\<exists>pre suf. s = pre @ sub @ suf)"
proof (induction s)
  case Nil
  show ?case by auto
next
  case (Cons c cs)
  have "(\<exists>pre suf. c # cs = pre @ sub @ suf)
          \<longleftrightarrow> (\<exists>suf. c # cs = sub @ suf) \<or> (\<exists>pre suf. cs = pre @ sub @ suf)"
  proof
    assume "\<exists>pre suf. c # cs = pre @ sub @ suf"
    then obtain pre suf where d: "c # cs = pre @ sub @ suf" by blast
    show "(\<exists>suf. c # cs = sub @ suf) \<or> (\<exists>pre suf. cs = pre @ sub @ suf)"
    proof (cases pre)
      case Nil
      with d show ?thesis by auto
    next
      case (Cons p ps)
      with d have "cs = ps @ sub @ suf" by simp
      then show ?thesis by blast
    qed
  next
    assume "(\<exists>suf. c # cs = sub @ suf) \<or> (\<exists>pre suf. cs = pre @ sub @ suf)"
    then show "\<exists>pre suf. c # cs = pre @ sub @ suf"
    proof
      assume "\<exists>suf. c # cs = sub @ suf"
      then obtain suf where "c # cs = [] @ sub @ suf" by auto
      then show ?thesis by blast
    next
      assume "\<exists>pre suf. cs = pre @ sub @ suf"
      then obtain pre suf where "c # cs = (c # pre) @ sub @ suf" by auto
      then show ?thesis by blast
    qed
  qed
  with Cons show ?case by (simp add: starts_with_iff)
qed




section \<open>The sequential-run detector\<close>











section \<open>The repeated-character detector\<close>

lemma search_triple_iff:
  "search_triple s \<longleftrightarrow> (\<exists>c pre suf. c \<noteq> CHR 0x0A \<and> s = pre @ [c, c, c] @ suf)"
proof (induction s rule: search_triple.induct)
  case (1 a b c cs)
  have "(\<exists>x pre suf. x \<noteq> CHR 0x0A \<and> a # b # c # cs = pre @ [x, x, x] @ suf)
          \<longleftrightarrow> (a \<noteq> CHR 0x0A \<and> b = a \<and> c = a)
              \<or> (\<exists>x pre suf. x \<noteq> CHR 0x0A \<and> b # c # cs = pre @ [x, x, x] @ suf)"
    (is "?L \<longleftrightarrow> ?H \<or> ?T")
  proof
    assume ?L
    then obtain x pre suf where d: "x \<noteq> CHR 0x0A" "a # b # c # cs = pre @ [x, x, x] @ suf"
      by blast
    show "?H \<or> ?T"
    proof (cases pre)
      case Nil
      with d show ?thesis by simp
    next
      case (Cons p ps)
      with d have "b # c # cs = ps @ [x, x, x] @ suf" by simp
      with d(1) show ?thesis by blast
    qed
  next
    assume "?H \<or> ?T"
    then show ?L
    proof
      assume ?H
      then have "a \<noteq> CHR 0x0A \<and> a # b # c # cs = [] @ [a, a, a] @ cs" by simp
      then show ?L by blast
    next
      assume ?T
      then obtain x pre suf where "x \<noteq> CHR 0x0A" "b # c # cs = pre @ [x, x, x] @ suf"
        by blast
      then have "x \<noteq> CHR 0x0A \<and> a # b # c # cs = (a # pre) @ [x, x, x] @ suf" by simp
      then show ?L by blast
    qed
  qed
  with 1 show ?case by simp
qed (auto simp: Cons_eq_append_conv)

text \<open>
  Claim C7, amended. The repeated-character detector reads the candidate as it was typed,
  not lowercased. For a candidate without a line feed it answers true exactly when some
  character stands three times in a row in it.
\<close>

theorem has_repeated_chars_raw:
  assumes "CHR 0x0A \<notin> set (password self)"
  shows "has_repeated_chars self \<longleftrightarrow> (\<exists>c pre suf. password self = pre @ [c, c, c] @ suf)"
proof
  assume "has_repeated_chars self"
  then show "\<exists>c pre suf. password self = pre @ [c, c, c] @ suf"
    by (auto simp: has_repeated_chars_def search_triple_iff)
next
  assume "\<exists>c pre suf. password self = pre @ [c, c, c] @ suf"
  then obtain c pre suf where p: "password self = pre @ [c, c, c] @ suf" by blast
  then have "c \<in> set (password self)" by simp
  with assms have "c \<noteq> CHR 0x0A" by blast
  with p show "has_repeated_chars self"
    unfolding has_repeated_chars_def search_triple_iff by blast
qed

theorem has_repeated_chars_raw_witness:
  "has_repeated_chars \<lparr>password = ''x1111'', username = [], email = [], old_password = [],
        common_passwords = [], criteria = []\<rparr>
   \<and> \<not> (\<exists>c pre suf. ''AAaa'' = pre @ [c, c, c] @ suf)"
proof -
  let ?y = "\<lparr>password = ''x1111'', username = [], email = [], old_password = [],
        common_passwords = [], criteria = []\<rparr>"
  let ?n = "\<lparr>password = ''AAaa'', username = [], email = [], old_password = [],
        common_passwords = [], criteria = []\<rparr>"
  have hy: "CHR 0x0A \<notin> set (password ?y)" and hn: "CHR 0x0A \<notin> set (password ?n)"
    by simp_all
  have "password ?y = ''x'' @ [CHR ''1'', CHR ''1'', CHR ''1''] @ ''1''"
    by simp
  then have "\<exists>c pre suf. password ?y = pre @ [c, c, c] @ suf"
    by blast
  then have y: "has_repeated_chars ?y"
    using has_repeated_chars_raw [OF hy] by blast
  have "\<not> has_repeated_chars ?n" by (simp add: has_repeated_chars_def)
  then have "\<not> (\<exists>c pre suf. password ?n = pre @ [c, c, c] @ suf)"
    using has_repeated_chars_raw [OF hn] by blast
  then have n: "\<not> (\<exists>c pre suf. ''AAaa'' = pre @ [c, c, c] @ suf)"
    by simp
  from y n show ?thesis by blast
qed

lemma lower_AAaa: "lower ''AAaa'' = [] @ [CHR ''a'', CHR ''a'', CHR ''a''] @ ''a''"
  by code_simp

text \<open>
  Against claim C7 as it is worded: \<open>AAaa\<close> has a run of four equal characters once
  lowercased, and the detector, which reads the candidate as typed, finds no run in it.
\<close>

theorem has_repeated_chars_lowercased_counterexample:
  "\<not> has_repeated_chars \<lparr>password = ''AAaa'', username = [], email = [], old_password = [],
        common_passwords = [], criteria = []\<rparr>
   \<and> (\<exists>c pre suf. lower ''AAaa'' = pre @ [c, c, c] @ suf)"
proof -
  have "\<not> has_repeated_chars \<lparr>password = ''AAaa'', username = [], email = [],
        old_password = [], common_passwords = [], criteria = []\<rparr>"
    by (simp add: has_repeated_chars_def)
  moreover have "\<exists>c pre suf. lower ''AAaa'' = pre @ [c, c, c] @ suf"
    using lower_AAaa by blast
  ultimately show ?thesis by simp
qed

section \<open>The keyboard-pattern detector\<close>

lemma row_loop_iff:
  "row_loop pl row is
     \<longleftrightarrow> (\<exists>i \<in> set is. str_in (slice row i (i + 4)) pl \<or> str_in (rev (slice row i (i + 4))) pl)"
  by (induction "is") auto

lemma rows_loop_iff:
  "rows_loop pl rows
     \<longleftrightarrow> (\<exists>row \<in> set rows. \<exists>i < length row - 3.
            str_in (slice row i (i + 4)) pl \<or> str_in (rev (slice row i (i + 4))) pl)"
  by (induction rows) (auto simp: row_loop_iff)

lemma windows_iff:
  "(\<exists>i < length row - 3. P (slice row i (i + 4)))
     \<longleftrightarrow> (\<exists>w. length w = 4 \<and> (\<exists>a b. row = a @ w @ b) \<and> P w)"
proof
  assume "\<exists>i < length row - 3. P (slice row i (i + 4))"
  then obtain i where i: "i < length row - 3" "P (slice row i (i + 4))" by blast
  let ?w = "slice row i (i + 4)"
  have "length ?w = 4" using i(1) by (simp add: slice_def)
  moreover have "row = take i row @ ?w @ drop 4 (drop i row)"
    unfolding slice_def by (simp del: drop_drop)
  ultimately show "\<exists>w. length w = 4 \<and> (\<exists>a b. row = a @ w @ b) \<and> P w"
    using i(2) by blast
next
  assume "\<exists>w. length w = 4 \<and> (\<exists>a b. row = a @ w @ b) \<and> P w"
  then obtain w a b where w: "length w = 4" "row = a @ w @ b" "P w" by blast
  have "slice row (length a) (length a + 4) = w" using w(1,2) by (simp add: slice_def)
  moreover have "length a < length row - 3" using w(1,2) by simp
  ultimately show "\<exists>i < length row - 3. P (slice row i (i + 4))" using w(3) by blast
qed


text \<open>
  Claim C8. The keyboard-pattern detector answers true exactly when some window of four
  consecutive characters of one of the four keyboard rows occurs in the lowercased
  candidate, forward or reversed; the two loops visit every such window.
\<close>

theorem has_keyboard_pattern_iff:
  "has_keyboard_pattern self
     \<longleftrightarrow> (\<exists>row \<in> set [''qwertyuiop'', ''asdfghjkl'', ''zxcvbnm'', ''1234567890''].
          \<exists>w. length w = 4 \<and> (\<exists>a b. row = a @ w @ b)
             \<and> ((\<exists>pre suf. lower (password self) = pre @ w @ suf)
                \<or> (\<exists>pre suf. lower (password self) = pre @ rev w @ suf)))"
proof -
  let ?pl = "lower (password self)"
  have "has_keyboard_pattern self
     \<longleftrightarrow> (\<exists>row \<in> set keyboard_rows. \<exists>i < length row - 3.
            str_in (slice row i (i + 4)) ?pl \<or> str_in (rev (slice row i (i + 4))) ?pl)"
    by (simp add: has_keyboard_pattern_def Let_def rows_loop_iff)
  also have "\<dots> \<longleftrightarrow> (\<exists>row \<in> set keyboard_rows.
          \<exists>w. length w = 4 \<and> (\<exists>a b. row = a @ w @ b) \<and> (str_in w ?pl \<or> str_in (rev w) ?pl))"
    by (simp only: windows_iff [where P = "\<lambda>w. str_in w ?pl \<or> str_in (rev w) ?pl"])
  finally show ?thesis
    by (simp only: str_in_iff keyboard_rows_def)
qed

lemma lower_Qwerty1234: "lower ''Qwerty1234'' = [] @ ''qwer'' @ ''ty1234''"
  by code_simp

lemma lower_4321: "lower ''Pa4321ss'' = ''pa'' @ rev ''1234'' @ ''ss''"
  by code_simp

lemma no_pattern_Tr0ub4dor:
  "\<not> has_keyboard_pattern \<lparr>password = ''Tr0ub4dor&3'', username = [], email = [],
        old_password = [], common_passwords = [], criteria = []\<rparr>"
  by code_simp

theorem has_keyboard_pattern_iff_witness:
  "has_keyboard_pattern \<lparr>password = ''Qwerty1234'', username = [], email = [],
        old_password = [], common_passwords = [], criteria = []\<rparr>
   \<and> has_keyboard_pattern \<lparr>password = ''Pa4321ss'', username = [], email = [],
        old_password = [], common_passwords = [], criteria = []\<rparr>
   \<and> \<not> (\<exists>row \<in> set [''qwertyuiop'', ''asdfghjkl'', ''zxcvbnm'', ''1234567890''].
          \<exists>w. length w = 4 \<and> (\<exists>a b. row = a @ w @ b)
             \<and> ((\<exists>pre suf. lower ''Tr0ub4dor&3'' = pre @ w @ suf)
                \<or> (\<exists>pre suf. lower ''Tr0ub4dor&3'' = pre @ rev w @ suf)))"
proof -
  let ?q = "\<lparr>password = ''Qwerty1234'', username = [], email = [],
        old_password = [], common_passwords = [], criteria = []\<rparr>"
  let ?r = "\<lparr>password = ''Pa4321ss'', username = [], email = [],
        old_password = [], common_passwords = [], criteria = []\<rparr>"
  let ?n = "\<lparr>password = ''Tr0ub4dor&3'', username = [], email = [],
        old_password = [], common_passwords = [], criteria = []\<rparr>"
  have "length ''qwer'' = 4 \<and> ''qwertyuiop'' = [] @ ''qwer'' @ ''tyuiop''
      \<and> lower (password ?q) = [] @ ''qwer'' @ ''ty1234''"
    using lower_Qwerty1234 by simp
  then have "\<exists>w. length w = 4 \<and> (\<exists>a b. ''qwertyuiop'' = a @ w @ b)
      \<and> ((\<exists>pre suf. lower (password ?q) = pre @ w @ suf)
          \<or> (\<exists>pre suf. lower (password ?q) = pre @ rev w @ suf))"
    by blast
  then have q: "has_keyboard_pattern ?q"
    unfolding has_keyboard_pattern_iff [of ?q] by simp
  have "length ''1234'' = 4 \<and> ''1234567890'' = [] @ ''1234'' @ ''567890''
      \<and> lower (password ?r) = ''pa'' @ rev ''1234'' @ ''ss''"
    using lower_4321 by simp
  then have "\<exists>w. length w = 4 \<and> (\<exists>a b. ''1234567890'' = a @ w @ b)
      \<and> ((\<exists>pre suf. lower (password ?r) = pre @ w @ suf)
          \<or> (\<exists>pre suf. lower (password ?r) = pre @ rev w @ suf))"
    by blast
  then have r: "has_keyboard_pattern ?r"
    unfolding has_keyboard_pattern_iff [of ?r] by simp
  have n: "\<not> (\<exists>row \<in> set [''qwertyuiop'', ''asdfghjkl'', ''zxcvbnm'', ''1234567890''].
          \<exists>w. length w = 4 \<and> (\<exists>a b. row = a @ w @ b)
             \<and> ((\<exists>pre suf. lower ''Tr0ub4dor&3'' = pre @ w @ suf)
                \<or> (\<exists>pre suf. lower ''Tr0ub4dor&3'' = pre @ rev w @ suf)))"
    using no_pattern_Tr0ub4dor has_keyboard_pattern_iff [of ?n] by simp
  from q r n show ?thesis by blast
qed

section \<open>The contextual detectors\<close>

lemma str_in_Nil: "str_in [] s"
  by (induction s) simp_all

lemma lower_Nil: "lower [] = []"
  by (simp add: lower_def)

lemma lower_eq_Nil: "lower s = [] \<longleftrightarrow> s = []"
  by (simp add: lower_def)

lemma split_not_Nil: "split sep s \<noteq> []"
  by (induction s) (auto split: list.splits)

lemma hd_split: "hd (split sep s) = takeWhile (\<lambda>c. c \<noteq> sep) s"
  by (induction s) (auto split: list.splits simp: split_not_Nil)

lemma local_part_empty_iff:
  "em \<noteq> [] \<and> hd (split CHR ''@'' em) = [] \<longleftrightarrow> (\<exists>rest. em = CHR ''@'' # rest)"
  by (cases em) (auto simp: hd_split simp del: split.simps)

lemma failed_iff: "k \<in> set (map fst (filter (\<lambda>(k, v). \<not> v) kvs)) \<longleftrightarrow> (k, False) \<in> set kvs"
  by (induction kvs) auto

lemma contains_personal_info_empty_local:
  assumes "email self \<noteq> []" and "hd (split CHR ''@'' (email self)) = []"
  shows "contains_personal_info self"
  using assms by (simp add: contains_personal_info_def Let_def lower_Nil str_in_Nil)

lemma no_personal_info_init:
  "(''no_personal_info'', b) \<in> set (criteria (Password_Complexity_Checker fs pw un em old))
     \<longleftrightarrow> b = (\<not> contains_personal_info
            \<lparr>password = pw, username = un, email = em, old_password = old,
             common_passwords = load_common_passwords fs, criteria = []\<rparr>)"
  by (simp add: criteria_init initialize_criteria_def)

lemma fields_init:
  "username (Password_Complexity_Checker fs pw un em old) = un"
  "email (Password_Complexity_Checker fs pw un em old) = em"
  "old_password (Password_Complexity_Checker fs pw un em old) = old"
  "common_passwords (Password_Complexity_Checker fs pw un em old) = load_common_passwords fs"
  by (simp_all add: Password_Complexity_Checker_def Let_def)

text \<open>
  Claim C10. When the email is not empty and its part before the first \<open>@\<close> is empty (the
  email begins with \<open>@\<close>), the personal-info detector answers true whatever the candidate,
  the empty string being found in every string, and the check \<open>no_personal_info\<close> fails.
\<close>

theorem empty_local_part_detected:
  assumes "em \<noteq> []" and "hd (split CHR ''@'' em) = []"
  shows "contains_personal_info (Password_Complexity_Checker fs pw un em old)
    \<and> (''no_personal_info'', False)
         \<in> set (criteria (Password_Complexity_Checker fs pw un em old))
    \<and> ''no_personal_info''
         \<in> set (failed_checks (analyze (Password_Complexity_Checker fs pw un em old)))"
proof -
  let ?c = "Password_Complexity_Checker fs pw un em old"
  let ?s = "\<lparr>password = pw, username = un, email = em, old_password = old,
             common_passwords = load_common_passwords fs, criteria = []\<rparr>"
  have a: "contains_personal_info ?c"
    using assms by (intro contains_personal_info_empty_local) (simp_all add: fields_init)
  have "contains_personal_info ?s"
    using assms by (intro contains_personal_info_empty_local) simp_all
  then have b: "(''no_personal_info'', False) \<in> set (criteria ?c)"
    by (simp add: no_personal_info_init)
  then have "''no_personal_info'' \<in> set (failed_checks (analyze ?c))"
    by (simp only: failed_checks_analyze failed_iff)
  with a b show ?thesis by simp
qed

lemma local_part_at_example: "hd (split CHR ''@'' ''@example.org'') = []"
  by code_simp

theorem empty_local_part_detected_witness:
  "contains_personal_info
     (Password_Complexity_Checker Map.empty ''Tr0ub4dor&3horse'' [] ''@example.org'' [])
   \<and> ''no_personal_info'' \<in> set (failed_checks (analyze
        (Password_Complexity_Checker Map.empty ''Tr0ub4dor&3horse'' [] ''@example.org'' [])))"
proof -
  have "''@example.org'' \<noteq> []" by simp
  from empty_local_part_detected [OF this local_part_at_example,
      of Map.empty "''Tr0ub4dor&3horse''" "[]" "[]"]
  show ?thesis by simp
qed

section \<open>The dictionary file\<close>

text \<open>
  The methods with the errors written out agree with the methods above wherever they
  return.
\<close>

lemma load_common_passwords_io_agrees:
  "load_common_passwords_io d = Inr common \<Longrightarrow> common = load_common_passwords (files_of d)"
  by (auto simp: load_common_passwords_io_def load_common_passwords_def open_io_def
      open_lines_def files_of_def split: sum.splits io_error.splits)

lemma contains_dictionary_word_io_agrees:
  "contains_dictionary_word_io d self = Inr found
     \<Longrightarrow> found = contains_dictionary_word (files_of d) self"
  by (auto simp: contains_dictionary_word_io_def contains_dictionary_word_def open_io_def
      open_lines_def files_of_def Let_def split: sum.splits io_error.splits)

lemma initialize_criteria_io_agrees:
  "initialize_criteria_io d self = Inr c \<Longrightarrow> c = initialize_criteria (files_of d) self"
  by (auto simp: initialize_criteria_io_def initialize_criteria_def
      dest: contains_dictionary_word_io_agrees split: sum.splits)

lemma Password_Complexity_Checker_io_agrees:
  assumes "Password_Complexity_Checker_io d pw un em old = Inr self"
  shows "self = Password_Complexity_Checker (files_of d) pw un em old"
  using assms
  by (auto simp: Password_Complexity_Checker_io_def Password_Complexity_Checker_def Let_def
      dest!: load_common_passwords_io_agrees initialize_criteria_io_agrees
      split: sum.splits)

lemma contains_dictionary_word_io_missing:
  "open_io d ''/usr/share/dict/words'' = Inl NoSuchFile
     \<Longrightarrow> contains_dictionary_word_io d self = Inr False"
  by (simp add: contains_dictionary_word_io_def)

lemma Password_Complexity_Checker_io_returns:
  assumes "load_common_passwords_io d = Inr common"
    and "\<And>self. \<exists>found. contains_dictionary_word_io d self = Inr found"
  shows "\<exists>self. Password_Complexity_Checker_io d pw un em old = Inr self"
proof -
  let ?s = "\<lparr>password = pw, username = un, email = em, old_password = old,
             common_passwords = common, criteria = []\<rparr>"
  obtain found where "contains_dictionary_word_io d ?s = Inr found"
    using assms(2) by blast
  then have "\<exists>c. initialize_criteria_io d ?s = Inr c"
    by (simp add: initialize_criteria_io_def)
  then show ?thesis
    using assms(1) by (auto simp: Password_Complexity_Checker_io_def Let_def)
qed

text \<open>
  Claim C9, amended. When the dictionary file is missing, so that opening it raises
  \<open>FileNotFoundError\<close>, the dictionary-word detector answers false for every candidate
  and raises nothing. If the list of common passwords loads as well, the constructor
  returns a checker whose check \<open>no_dict_words\<close> passes, and \<open>analyze\<close> returns its
  result over all twelve checks.
\<close>

theorem dictionary_missing:
  assumes "open_io d ''/usr/share/dict/words'' = Inl NoSuchFile"
  shows "contains_dictionary_word_io d self = Inr False
    \<and> (\<forall>common. load_common_passwords_io d = Inr common \<longrightarrow>
         (\<exists>c. Password_Complexity_Checker_io d pw un em old = Inr c
            \<and> (''no_dict_words'', True) \<in> set (criteria c)
            \<and> ''no_dict_words'' \<notin> set (failed_checks (analyze c))
            \<and> total_possible (analyze c) = 12))"
proof -
  have a: "contains_dictionary_word_io d s = Inr False" for s
    using assms by (rule contains_dictionary_word_io_missing)
  have b: "\<exists>c. Password_Complexity_Checker_io d pw un em old = Inr c
            \<and> (''no_dict_words'', True) \<in> set (criteria c)
            \<and> ''no_dict_words'' \<notin> set (failed_checks (analyze c))
            \<and> total_possible (analyze c) = 12"
    if l: "load_common_passwords_io d = Inr common" for common
  proof -
    obtain c where c: "Password_Complexity_Checker_io d pw un em old = Inr c"
      using Password_Complexity_Checker_io_returns [OF l] a by blast
    have w: "\<not> contains_dictionary_word (files_of d) s" for s
      using contains_dictionary_word_io_agrees [OF a, of s] by simp
    have e: "c = Password_Complexity_Checker (files_of d) pw un em old"
      using c by (rule Password_Complexity_Checker_io_agrees)
    have t: "(''no_dict_words'', True) \<in> set (criteria c)"
      unfolding e by (simp add: criteria_init initialize_criteria_def w)
    have f: "(''no_dict_words'', False) \<notin> set (criteria c)"
      unfolding e by (simp add: criteria_init initialize_criteria_def w)
    have n: "length (criteria c) = 12"
      unfolding e by (rule length_criteria_init)
    from f have "''no_dict_words'' \<notin> set (failed_checks (analyze c))"
      by (simp only: failed_checks_analyze failed_iff not_False_eq_True)
    moreover from n have "total_possible (analyze c) = 12"
      by (simp add: total_possible_analyze)
    ultimately show ?thesis using c t by blast
  qed
  from a b show ?thesis by blast
qed

theorem dictionary_missing_witness:
  "contains_dictionary_word_io (\<lambda>path. Inl NoSuchFile)
       \<lparr>password = ''horsebattery'', username = [], email = [], old_password = [],
        common_passwords = [], criteria = []\<rparr> = Inr False
   \<and> (\<exists>c. Password_Complexity_Checker_io (\<lambda>path. Inl NoSuchFile) ''horsebattery'' [] [] []
            = Inr c
        \<and> ''no_dict_words'' \<notin> set (failed_checks (analyze c))
        \<and> total_possible (analyze c) = 12)"
proof -
  let ?d = "\<lambda>path :: string. (Inl NoSuchFile :: io_error + string list)"
  have o: "open_io ?d ''/usr/share/dict/words'' = Inl NoSuchFile"
    by (simp add: open_io_def)
  have l: "load_common_passwords_io ?d = Inr default_common_passwords"
    by (simp add: load_common_passwords_io_def open_io_def)
  from dictionary_missing [OF o, of _ "''horsebattery''" "[]" "[]" "[]"] l
  show ?thesis by blast
qed

text \<open>
  Against claim C9 as it is worded: a dictionary that is there and may not be read is
  unavailable too, and then the detector raises \<open>PermissionError\<close>, the constructor raises
  it in turn, and there is no checker to analyze.
\<close>

theorem dictionary_unreadable_counterexample:
  "contains_dictionary_word_io
       (\<lambda>path. if path = ''/usr/share/dict/words'' then Inl PermissionError else Inl NoSuchFile)
       \<lparr>password = ''horsebattery'', username = [], email = [], old_password = [],
        common_passwords = [], criteria = []\<rparr> = Inl PermissionError
   \<and> Password_Complexity_Checker_io
       (\<lambda>path. if path = ''/usr/share/dict/words'' then Inl PermissionError else Inl NoSuchFile)
       ''horsebattery'' [] [] [] = Inl PermissionError"
  by (simp add: Password_Complexity_Checker_io_def initialize_criteria_io_def
      contains_dictionary_word_io_def load_common_passwords_io_def open_io_def)

section \<open>The classifier\<close>

text \<open>
  Claim C4, amended. With a score of 8 the classifier answers \<open>very_strong\<close> at an
  entropy of 60. Below 60 the next row that holds decides: \<open>strong\<close> from 45 on, so at
  59; \<open>moderate\<close> from 30 up to 45; \<open>weak\<close> under 30.
\<close>

theorem get_strength_label_score_8:
  "get_strength_label 8 60 = ''very_strong''
   \<and> get_strength_label 8 59 = ''strong''
   \<and> (\<forall>e. e < 60 \<longrightarrow>
         get_strength_label 8 e
           = (if e \<ge> 45 then ''strong'' else if e \<ge> 30 then ''moderate'' else ''weak''))"
  by (simp add: get_strength_label_def)

theorem get_strength_label_score_8_witness:
  "get_strength_label 8 40 = ''moderate'' \<and> get_strength_label 8 12 = ''weak''"
proof -
  have "\<forall>e. e < 60 \<longrightarrow>
         get_strength_label 8 e
           = (if e \<ge> 45 then ''strong'' else if e \<ge> 30 then ''moderate'' else ''weak'')"
    using get_strength_label_score_8 by blast
  then have "(40::real) < 60 \<longrightarrow> get_strength_label 8 40
           = (if (40::real) \<ge> 45 then ''strong'' else if (40::real) \<ge> 30 then ''moderate'' else ''weak'')"
      and "(12::real) < 60 \<longrightarrow> get_strength_label 8 12
           = (if (12::real) \<ge> 45 then ''strong'' else if (12::real) \<ge> 30 then ''moderate'' else ''weak'')"
    by blast+
  then show ?thesis by simp
qed

text \<open>
  Against claim C4 as it is worded: at a score of 8 and an entropy of 59 the label is
  neither \<open>moderate\<close> nor \<open>weak\<close>.
\<close>

theorem get_strength_label_8_59_counterexample:
  "get_strength_label 8 59
     \<noteq> (if (8::int) \<ge> 4 \<and> (59::real) \<ge> 30 then ''moderate'' else ''weak'')"
  by (simp add: get_strength_label_def)

section \<open>The entropy estimate\<close>

lemma search_class_iff: "search_class cls s \<longleftrightarrow> (\<exists>c \<in> set s. cls c)"
  by (simp add: search_class_def list_ex_iff)

lemma search_class_Nil: "\<not> search_class cls []"
  by (simp add: search_class_def)

lemma non_alnum_class_iff:
  "non_alnum_class c \<longleftrightarrow> \<not> (lower_class c \<or> upper_class c \<or> digit_class c)"
  by (simp add: non_alnum_class_def lower_class_def upper_class_def digit_class_def)

lemma pool_size_sum:
  "pool_size self =
     (if search_class lower_class (password self) then 26 else 0)
     + (if search_class upper_class (password self) then 26 else 0)
     + (if search_class digit_class (password self) then 10 else 0)
     + (if search_class non_alnum_class (password self) then 32 else 0)"
  by (simp add: pool_size_def Let_def)

lemma pool_size_zero_iff: "pool_size self = 0 \<longleftrightarrow> password self = []"
proof
  assume z: "pool_size self = 0"
  show "password self = []"
  proof (cases "password self")
    case Nil
    then show ?thesis .
  next
    case (Cons c cs)
    then have "c \<in> set (password self)" by simp
    then have "search_class lower_class (password self)
        \<or> search_class upper_class (password self)
        \<or> search_class digit_class (password self)
        \<or> search_class non_alnum_class (password self)"
      unfolding search_class_iff non_alnum_class_iff by blast
    then have "pool_size self \<noteq> 0"
      by (auto simp: pool_size_sum)
    with z show ?thesis by simp
  qed
next
  assume "password self = []"
  then show "pool_size self = 0"
    by (simp add: pool_size_sum search_class_Nil)
qed











section \<open>The empty candidate\<close>

lemma Nil_eq_lower: "[] = lower s \<longleftrightarrow> s = []"
  by (simp add: lower_def)

lemma rows_loop_Nil: "\<not> rows_loop [] keyboard_rows"
  by code_simp

lemma has_sequential_chars_empty: "password self = [] \<Longrightarrow> \<not> has_sequential_chars self"
  by (simp add: has_sequential_chars_def lower_Nil sequences_def)

lemma has_repeated_chars_empty: "password self = [] \<Longrightarrow> \<not> has_repeated_chars self"
  by (simp add: has_repeated_chars_def)

lemma is_similar_to_old_empty: "password self = [] \<Longrightarrow> \<not> is_similar_to_old self"
  by (auto simp: is_similar_to_old_def lower_Nil lower_eq_Nil Nil_eq_lower)

lemma contains_dictionary_word_empty:
  "password self = [] \<Longrightarrow> \<not> contains_dictionary_word fs self"
  by (auto simp: contains_dictionary_word_def lower_Nil list_ex_iff
      split: sum.splits error.splits)

lemma has_keyboard_pattern_empty: "password self = [] \<Longrightarrow> \<not> has_keyboard_pattern self"
  by (simp add: has_keyboard_pattern_def lower_Nil rows_loop_Nil)

lemma contains_personal_info_empty:
  "password self = [] \<Longrightarrow>
     contains_personal_info self
       \<longleftrightarrow> email self \<noteq> [] \<and> hd (split CHR ''@'' (email self)) = []"
  by (auto simp: contains_personal_info_def Let_def lower_Nil lower_eq_Nil Nil_eq_lower)

lemma criteria_empty:
  "criteria (Password_Complexity_Checker fs [] un em old) =
     [(''length'', False), (''uppercase'', False), (''lowercase'', False), (''number'', False),
      (''special_char'', False),
      (''not_common'', [] \<notin> set (load_common_passwords fs)),
      (''no_sequential'', True), (''no_repeated'', True),
      (''no_personal_info'', \<not> (em \<noteq> [] \<and> hd (split CHR ''@'' em) = [])),
      (''not_similar_old'', True), (''no_dict_words'', True),
      (''no_keyboard_patterns'', True)]"
  by (simp add: criteria_init initialize_criteria_def search_class_Nil lower_Nil
      has_sequential_chars_empty has_repeated_chars_empty is_similar_to_old_empty
      contains_dictionary_word_empty has_keyboard_pattern_empty contains_personal_info_empty)

text \<open>
  Claim C3, amended. For the empty candidate, whatever the context and the files, the
  entropy is 0 and the score lies between 5 and 7. The checks \<open>length\<close>, \<open>uppercase\<close>,
  \<open>lowercase\<close>, \<open>number\<close> and \<open>special_char\<close> fail; \<open>not_common\<close> fails only when the list
  of common passwords holds the empty string, \<open>no_personal_info\<close> only when the email is
  given with an empty part before \<open>@\<close>; the five other checks pass.
\<close>

theorem empty_candidate:
  "entropy (analyze (Password_Complexity_Checker fs [] un em old)) = 0
   \<and> failed_checks (analyze (Password_Complexity_Checker fs [] un em old)) =
       [''length'', ''uppercase'', ''lowercase'', ''number'', ''special_char'']
       @ (if [] \<in> set (load_common_passwords fs) then [''not_common''] else [])
       @ (if em \<noteq> [] \<and> hd (split CHR ''@'' em) = [] then [''no_personal_info''] else [])
   \<and> score (analyze (Password_Complexity_Checker fs [] un em old)) =
       7 - (if [] \<in> set (load_common_passwords fs) then 1 else 0)
         - (if em \<noteq> [] \<and> hd (split CHR ''@'' em) = [] then 1 else 0)
   \<and> 5 \<le> score (analyze (Password_Complexity_Checker fs [] un em old))
   \<and> score (analyze (Password_Complexity_Checker fs [] un em old)) \<le> 7"
proof -
  let ?c = "Password_Complexity_Checker fs [] un em old"
  have "pool_size ?c = 0"
    by (simp add: pool_size_zero_iff password_init)
  then have e: "entropy (analyze ?c) = 0"
    by (simp add: entropy_analyze calculate_entropy_def)
  have f: "failed_checks (analyze ?c) =
       [''length'', ''uppercase'', ''lowercase'', ''number'', ''special_char'']
       @ (if [] \<in> set (load_common_passwords fs) then [''not_common''] else [])
       @ (if em \<noteq> [] \<and> hd (split CHR ''@'' em) = [] then [''no_personal_info''] else [])"
    by (simp add: failed_checks_analyze criteria_empty)
  have s: "score (analyze ?c) =
       7 - (if [] \<in> set (load_common_passwords fs) then 1 else 0)
         - (if em \<noteq> [] \<and> hd (split CHR ''@'' em) = [] then 1 else 0)"
    by (simp add: score_analyze criteria_empty bool_int_def)
  then have "5 \<le> score (analyze ?c) \<and> score (analyze ?c) \<le> 7"
    by (simp split: if_splits)
  with e f s show ?thesis by blast
qed

lemma blank_line_common:
  "[] \<in> set (load_common_passwords [''common_passwords.txt'' \<mapsto> [''hunter2'' @ [CHR 0x0A], [CHR 0x0A]]])"
  by code_simp

theorem empty_candidate_witness:
  "failed_checks (analyze (Password_Complexity_Checker
       [''common_passwords.txt'' \<mapsto> [''hunter2'' @ [CHR 0x0A], [CHR 0x0A]]]
       [] ''alice'' ''@example.org'' ''OldPass1!'')) =
     [''length'', ''uppercase'', ''lowercase'', ''number'', ''special_char'', ''not_common'',
      ''no_personal_info'']
   \<and> score (analyze (Password_Complexity_Checker
       [''common_passwords.txt'' \<mapsto> [''hunter2'' @ [CHR 0x0A], [CHR 0x0A]]]
       [] ''alice'' ''@example.org'' ''OldPass1!'')) = 5
   \<and> entropy (analyze (Password_Complexity_Checker
       [''common_passwords.txt'' \<mapsto> [''hunter2'' @ [CHR 0x0A], [CHR 0x0A]]]
       [] ''alice'' ''@example.org'' ''OldPass1!'')) = 0"
  using empty_candidate [of "[''common_passwords.txt'' \<mapsto> [''hunter2'' @ [CHR 0x0A], [CHR 0x0A]]]"
      "''alice''" "''@example.org''" "''OldPass1!''"]
    blank_line_common
  by (simp del: split.simps add: local_part_at_example)

lemma criteria_empty_default:
  "criteria (Password_Complexity_Checker Map.empty [] [] [] []) =
     [(''length'', False), (''uppercase'', False), (''lowercase'', False), (''number'', False),
      (''special_char'', False), (''not_common'', True), (''no_sequential'', True),
      (''no_repeated'', True), (''no_personal_info'', True), (''not_similar_old'', True),
      (''no_dict_words'', True), (''no_keyboard_patterns'', True)]"
  by code_simp

text \<open>
  Against claim C3 as it is worded: the empty candidate with no context and no file scores
  7, not 0, and seven checks pass.
\<close>

theorem empty_candidate_score_counterexample:
  "score (analyze (Password_Complexity_Checker Map.empty [] [] [] [])) = 7
   \<and> score (analyze (Password_Complexity_Checker Map.empty [] [] [] [])) \<noteq> 0
   \<and> failed_checks (analyze (Password_Complexity_Checker Map.empty [] [] [] []))
       = [''length'', ''uppercase'', ''lowercase'', ''number'', ''special_char'']"
  by (simp add: score_analyze failed_checks_analyze criteria_empty_default bool_int_def)

end
